theory Spec2Isabelle
  imports Complex_Main
begin

section \<open>Data model\<close>

text \<open>
  The dialog reads a netCDF4 dataset: a dictionary of variables, each with a name, a tuple
  of dimension names, a shape, a dictionary of attributes and an array payload.
  Attribute values are numeric scalars or strings. Array elements and attribute numbers
  are real numbers: arithmetic is exact, the conversion to 32-bit floats is a function
  supplied by the host. What depends on the rounding of floating-point arithmetic is
  therefore not stated over this model. An N-dimensional array is its shape with its
  elements in row-major order.
\<close>

datatype py_error = IndexError | KeyError | TypeError | ValueError | AttributeError
  | RuntimeError

datatype attr_value = Num real | Str string

record ndarray =
  shp :: "nat list"
  elems :: "real list"

record variable =
  var_name :: string
  dimensions :: "string list"
  shape :: "nat list"
  attrs :: "string \<rightharpoonup> attr_value"
  payload :: "real list"

record dataset =
  variables :: "string \<rightharpoonup> variable"

definition andthen :: "py_error + 'a \<Rightarrow> ('a \<Rightarrow> py_error + 'b) \<Rightarrow> py_error + 'b" where
  "andthen m f = (case m of Inl e \<Rightarrow> Inl e | Inr v \<Rightarrow> f v)"

section \<open>The array operations used by the dialog\<close>

definition fetch :: "variable \<Rightarrow> ndarray" where
  \<comment> \<open>\<open>var[:]\<close>\<close>
  "fetch v = \<lparr>shp = shape v, elems = payload v\<rparr>"

definition nd_len :: "ndarray \<Rightarrow> py_error + nat" where
  \<comment> \<open>\<open>len(a)\<close>: a 0-d array has no length\<close>
  "nd_len a = (case shp a of [] \<Rightarrow> Inl TypeError | n # rest \<Rightarrow> Inr n)"

definition nd_item :: "ndarray \<Rightarrow> int \<Rightarrow> py_error + ndarray" where
  \<comment> \<open>\<open>a[i]\<close> (and \<open>a[i, :]\<close>) along the first axis; a negative index counts from the end\<close>
  "nd_item a i =
     (case shp a of
        [] \<Rightarrow> Inl IndexError
      | n # rest \<Rightarrow>
          (let j = (if i < 0 then int n + i else i)
           in if 0 \<le> j \<and> j < int n
              then Inr \<lparr>shp = rest,
                        elems = take (prod_list rest) (drop (nat j * prod_list rest) (elems a))\<rparr>
              else Inl IndexError))"

definition first_column :: "ndarray \<Rightarrow> py_error + ndarray" where
  \<comment> \<open>\<open>a[:, 0]\<close> on an array of rank at least 2\<close>
  "first_column a =
     (case shp a of
        n # m # rest \<Rightarrow>
          if m = 0 then Inl IndexError
          else Inr \<lparr>shp = n # rest,
                    elems = concat (map (\<lambda>i. take (prod_list rest)
                                               (drop (i * (m * prod_list rest)) (elems a)))
                                        [0..<n])\<rparr>
      | _ \<Rightarrow> Inl IndexError)"

definition to_float :: "ndarray \<Rightarrow> py_error + real" where
  \<comment> \<open>\<open>float(a)\<close>: only an array of exactly one element converts\<close>
  "to_float a = (case elems a of [v] \<Rightarrow> Inr v | _ \<Rightarrow> Inl TypeError)"

definition truth :: "bool list \<Rightarrow> py_error + bool" where
  \<comment> \<open>the truth value of a comparison result: one element, or the literal \<open>True\<close> as \<open>[True]\<close>\<close>
  "truth bs = (case bs of [b] \<Rightarrow> Inr b | _ \<Rightarrow> Inl ValueError)"

definition times :: "ndarray \<Rightarrow> attr_value \<Rightarrow> py_error + ndarray" where
  \<comment> \<open>\<open>a * h\<close>: numpy has no product of a numeric array and a string\<close>
  "times a h = (case h of Num r \<Rightarrow> Inr (a\<lparr>elems := map (\<lambda>v. v * r) (elems a)\<rparr>)
                        | Str s \<Rightarrow> Inl TypeError)"

definition ascending :: "ndarray \<Rightarrow> py_error + bool list" where
  \<comment> \<open>\<open>a[1] > a[0] if len(a) > 1 else True\<close>\<close>
  "ascending a =
     andthen (nd_len a) (\<lambda>n.
       if n > 1
       then andthen (nd_item a 1) (\<lambda>a1. andthen (nd_item a 0) (\<lambda>a0.
              Inr (map2 (\<lambda>p q. p > q) (elems a1) (elems a0))))
       else Inr [True])"

definition pixel_size :: "ndarray \<Rightarrow> py_error + real" where
  \<comment> \<open>\<open>abs(a[1] - a[0]) if len(a) > 1 else 1\<close>. The difference of two sub-arrays is a
      sub-array; it is read here as a number, which \<open>float(a[0])\<close> two lines below demands
      of the same sub-arrays with the same TypeError.\<close>
  "pixel_size a =
     andthen (nd_len a) (\<lambda>n.
       if n > 1
       then andthen (nd_item a 1) (\<lambda>a1. andthen (nd_item a 0) (\<lambda>a0.
              to_float \<lparr>shp = shp a1, elems = map2 (\<lambda>p q. \<bar>p - q\<bar>) (elems a1) (elems a0)\<rparr>))
       else Inr 1)"

section \<open>Coordinate resolution\<close>

definition x_coords :: "string list" where
  "x_coords = [''x'', ''lon'', ''longitude'', ''projection_x_coordinate'']"

definition y_coords :: "string list" where
  "y_coords = [''y'', ''lat'', ''latitude'', ''projection_y_coordinate'']"

definition is_space :: "char \<Rightarrow> bool" where
  \<comment> \<open>the ASCII characters \<open>str.split()\<close> treats as white space\<close>
  "is_space c = (c \<in> set [CHR '' '', CHR 0x09, CHR 0x0A, CHR 0x0B, CHR 0x0C, CHR 0x0D,
                           CHR 0x1C, CHR 0x1D, CHR 0x1E, CHR 0x1F])"

fun words_of :: "string \<Rightarrow> string \<Rightarrow> string list" where
  "words_of [] w = (if w = [] then [] else [w])"
| "words_of (c # cs) w =
     (if is_space c then (if w = [] then words_of cs [] else w # words_of cs [])
      else words_of cs (w @ [c]))"

definition split_ws :: "string \<Rightarrow> string list" where
  \<comment> \<open>\<open>s.split()\<close>\<close>
  "split_ws s = words_of s []"

type_synonym sel = "(variable \<times> string) option"

definition has_axis :: "variable \<Rightarrow> string \<Rightarrow> bool" where
  \<comment> \<open>\<open>hasattr(coord_var, 'axis') and getattr(coord_var, 'axis') == a\<close>\<close>
  "has_axis cv a = (attrs cv ''axis'' = Some (Str a))"

definition classify :: "dataset \<Rightarrow> string \<Rightarrow> sel \<times> sel \<Rightarrow> sel \<times> sel" where
  \<comment> \<open>the body of both \<open>for\<close> loops: \<open>(x_var, x_name)\<close> and \<open>(y_var, y_name)\<close>\<close>
  "classify ds nm acc =
     (case variables ds nm of
        None \<Rightarrow> acc
      | Some cv \<Rightarrow>
          if nm \<in> set x_coords \<or> has_axis cv ''X'' then (Some (cv, nm), snd acc)
          else if nm \<in> set y_coords \<or> has_axis cv ''Y'' then (fst acc, Some (cv, nm))
          else acc)"

fun scan :: "dataset \<Rightarrow> string list \<Rightarrow> sel \<times> sel \<Rightarrow> sel \<times> sel" where
  "scan ds [] acc = acc"
| "scan ds (nm # nms) acc = scan ds nms (classify ds nm acc)"

definition from_coordinates :: "dataset \<Rightarrow> variable \<Rightarrow> py_error + sel \<times> sel" where
  \<comment> \<open>\<open>if hasattr(var, 'coordinates')\<close>: a number has no \<open>split\<close>\<close>
  "from_coordinates ds var =
     (case attrs var ''coordinates'' of
        None \<Rightarrow> Inr (None, None)
      | Some (Str s) \<Rightarrow> Inr (scan ds (split_ws s) (None, None))
      | Some (Num r) \<Rightarrow> Inl AttributeError)"

definition from_dimensions :: "dataset \<Rightarrow> variable \<Rightarrow> sel \<times> sel \<Rightarrow> sel \<times> sel" where
  \<comment> \<open>\<open>if x_var is None or y_var is None\<close>: the loop over \<open>var.dimensions\<close>\<close>
  "from_dimensions ds var acc =
     (if fst acc = None \<or> snd acc = None then scan ds (dimensions var) acc else acc)"

definition resolve :: "dataset \<Rightarrow> variable \<Rightarrow> py_error + sel \<times> sel" where
  "resolve ds var = andthen (from_coordinates ds var) (\<lambda>acc. Inr (from_dimensions ds var acc))"

section \<open>Geotransform\<close>

definition attr_or :: "variable \<Rightarrow> string \<Rightarrow> real \<Rightarrow> attr_value" where
  \<comment> \<open>\<open>getattr(v, k, d)\<close> and \<open>proj_attrs.get(k, d)\<close> with a numeric default\<close>
  "attr_or v k d = (case attrs v k of None \<Rightarrow> Num d | Some a \<Rightarrow> a)"

definition goes_height :: "variable \<Rightarrow> attr_value" where
  \<comment> \<open>\<open>getattr(proj_var, 'perspective_point_height', 35786023.0)\<close>\<close>
  "goes_height pv = attr_or pv ''perspective_point_height'' 35786023"

definition goes_scale :: "dataset \<Rightarrow> ndarray \<Rightarrow> ndarray \<Rightarrow> py_error + ndarray \<times> ndarray" where
  "goes_scale ds x y =
     (case variables ds ''goes_imager_projection'' of
        None \<Rightarrow> Inr (x, y)
      | Some pv \<Rightarrow> andthen (times x (goes_height pv)) (\<lambda>x'.
                   andthen (times y (goes_height pv)) (\<lambda>y'. Inr (x', y'))))"

definition first_element :: "ndarray \<Rightarrow> py_error + real" where
  \<comment> \<open>\<open>float(a[0])\<close>\<close>
  "first_element a = andthen (nd_item a 0) to_float"

definition last_element :: "ndarray \<Rightarrow> py_error + real" where
  \<comment> \<open>\<open>float(a[-1])\<close>\<close>
  "last_element a = andthen (nd_item a (- 1)) to_float"

definition reduce_x :: "ndarray \<Rightarrow> py_error + ndarray" where
  \<comment> \<open>\<open>if len(x.shape) > 1: x = x[0, :]\<close>\<close>
  "reduce_x x = (if length (shp x) > 1 then nd_item x 0 else Inr x)"

definition reduce_y :: "ndarray \<Rightarrow> py_error + ndarray" where
  \<comment> \<open>\<open>if len(y.shape) > 1: y = y[:, 0]\<close>\<close>
  "reduce_y y = (if length (shp y) > 1 then first_column y else Inr y)"

definition build_geotransform :: "dataset \<Rightarrow> variable \<Rightarrow> variable \<Rightarrow> py_error + real list" where
  "build_geotransform ds x_var y_var =
     andthen (reduce_x (fetch x_var)) (\<lambda>x0.
     andthen (reduce_y (fetch y_var)) (\<lambda>y0.
     andthen (ascending x0) (\<lambda>x_ascending.
     andthen (ascending y0) (\<lambda>y_ascending.
     andthen (goes_scale ds x0 y0) (\<lambda>(x, y).
     andthen (pixel_size x) (\<lambda>pixel_width.
     andthen (pixel_size y) (\<lambda>pixel_height.
     andthen (first_element x) (\<lambda>x_first.
     andthen (truth x_ascending) (\<lambda>x_asc.
     andthen (if \<not> x_asc
              then andthen (last_element x) (\<lambda>x_last. Inr (x_last, - pixel_width))
              else Inr (x_first, pixel_width)) (\<lambda>(x_min, pixel_width).
     andthen (first_element y) (\<lambda>y_first.
     andthen (truth y_ascending) (\<lambda>y_asc.
     andthen (if y_asc
              then andthen (last_element y) (\<lambda>y_last. Inr (y_last, - pixel_height))
              else Inr (y_first, pixel_height)) (\<lambda>(y_max, pixel_height).
     Inr [x_min, pixel_width, 0, y_max, 0, - pixel_height])))))))))))))"

definition geotransform_body ::
  "dataset \<Rightarrow> variable \<Rightarrow> py_error + (real list \<times> string \<times> string) option" where
  \<comment> \<open>the \<open>try\<close> block of \<open>get_geotransform\<close>\<close>
  "geotransform_body ds var =
     andthen (resolve ds var) (\<lambda>acc.
       case acc of
         (Some (x_var, x_name), Some (y_var, y_name)) \<Rightarrow>
           andthen (build_geotransform ds x_var y_var) (\<lambda>gt. Inr (Some (gt, x_name, y_name)))
       | _ \<Rightarrow> Inr None)"

definition get_geotransform ::
  "dataset \<Rightarrow> variable \<Rightarrow> (real list \<times> string \<times> string) option" where
  \<comment> \<open>\<open>except Exception: return None, None\<close>\<close>
  "get_geotransform ds var =
     (case geotransform_body ds var of Inl e \<Rightarrow> None | Inr r \<Rightarrow> r)"

section \<open>Projection\<close>

text \<open>
  The spatial reference is an object of the raster library. It is modelled by the call that
  defined it, with the numbers passed in the order of the call; \<open>Blank\<close> is the object
  as constructed, with no definition imported: it describes no spatial reference.
\<close>

datatype srs = Blank
  | EPSG nat
  | TM "real list"
  | LCC "real list"
  | Geos attr_value attr_value
  | PS "real list"

definition proj_vars :: "string list" where
  "proj_vars = [''crs'', ''transverse_mercator'', ''projection'', ''lambert_conformal_conic'',
                ''goes_imager_projection'', ''polar_stereographic'', ''grid_mapping'']"

fun find_proj_var :: "dataset \<Rightarrow> string list \<Rightarrow> variable option" where
  "find_proj_var ds [] = None"
| "find_proj_var ds (nm # nms) =
     (case variables ds nm of Some v \<Rightarrow> Some v | None \<Rightarrow> find_proj_var ds nms)"

definition num_arg :: "attr_value \<Rightarrow> py_error + real" where
  \<comment> \<open>a floating-point argument of a library call: a string is refused\<close>
  "num_arg a = (case a of Num r \<Rightarrow> Inr r | Str s \<Rightarrow> Inl TypeError)"

fun num_args :: "attr_value list \<Rightarrow> py_error + real list" where
  "num_args [] = Inr []"
| "num_args (a # as) =
     andthen (num_arg a) (\<lambda>r. andthen (num_args as) (\<lambda>rs. Inr (r # rs)))"

definition make_srs :: "variable \<Rightarrow> py_error + srs" where
  "make_srs pv =
     (case attrs pv ''grid_mapping_name'' of
        None \<Rightarrow> Inr Blank
      | Some mapping_name \<Rightarrow>
          if mapping_name = Str ''latitude_longitude'' then Inr (EPSG 4326)
          else if mapping_name = Str ''transverse_mercator'' then
            andthen (num_args [attr_or pv ''latitude_of_projection_origin'' 0,
                               attr_or pv ''longitude_of_central_meridian'' 0,
                               attr_or pv ''scale_factor_at_central_meridian'' 1,
                               attr_or pv ''false_easting'' 0,
                               attr_or pv ''false_northing'' 0]) (\<lambda>ps. Inr (TM ps))
          else if mapping_name = Str ''lambert_conformal_conic'' then
            andthen (num_args [attr_or pv ''standard_parallel_1'' 30,
                               attr_or pv ''standard_parallel_2'' 60,
                               attr_or pv ''latitude_of_projection_origin'' 0,
                               attr_or pv ''longitude_of_central_meridian'' 0,
                               attr_or pv ''false_easting'' 0,
                               attr_or pv ''false_northing'' 0]) (\<lambda>ps. Inr (LCC ps))
          else if mapping_name = Str ''geostationary'' then
            Inr (Geos (attr_or pv ''perspective_point_height'' 0)
                      (attr_or pv ''longitude_of_projection_origin'' 0))
          else if mapping_name = Str ''polar_stereographic'' then
            andthen (num_args [attr_or pv ''latitude_of_projection_origin'' 90,
                               attr_or pv ''longitude_of_projection_origin'' 0,
                               attr_or pv ''scale_factor'' 1,
                               attr_or pv ''false_easting'' 0,
                               attr_or pv ''false_northing'' 0]) (\<lambda>ps. Inr (PS ps))
          else Inr Blank)"

definition get_projection_info :: "dataset \<Rightarrow> py_error + (srs \<times> string) option" where
  \<comment> \<open>\<open>None\<close> is the pair \<open>(None, None)\<close>\<close>
  "get_projection_info ds =
     (case find_proj_var ds proj_vars of
        None \<Rightarrow> Inr None
      | Some proj_var \<Rightarrow> andthen (make_srs proj_var) (\<lambda>s. Inr (Some (s, var_name proj_var))))"

section \<open>Visualization\<close>

text \<open>
  What the raster library, the Python runtime and the host application answer is a
  parameter of the model: how \<open>float()\<close> reads a string, how a number is rounded to 32
  bits, whether the driver exists, whether the file is created, what writing the array
  returns, whether the no-data value and the statistics are accepted, whether the
  finished layer is valid.
\<close>

record host =
  float_of_str :: "string \<Rightarrow> real option"
  float32 :: "real \<Rightarrow> real"
  gtiff_driver :: bool
  create_ok :: "nat \<Rightarrow> nat \<Rightarrow> bool"
  band_ok :: bool
  write_array :: "nat list \<Rightarrow> py_error + int"
  nodata_ok :: "real \<Rightarrow> bool"
  statistics_ok :: bool
  layer_valid :: bool

datatype cell = Masked | Valid real

record grid =
  extents :: "nat list"
  cells :: "cell list"

record raster =
  xsize :: nat
  ysize :: nat
  projection :: "srs option"
  geotransform :: "real list option"
  band :: "grid option"
  nodata :: "real option"
  statistics :: bool

datatype message = TooFewDimensions string | Caught py_error | LayerInvalid

record outcome =
  temp_file :: bool
  out_ds :: "raster option"
  layer_added :: bool
  messages :: "message list"

definition idle :: outcome where
  "idle = \<lparr>temp_file = False, out_ds = None, layer_added = False, messages = []\<rparr>"

definition py_float :: "host \<Rightarrow> attr_value \<Rightarrow> py_error + real" where
  \<comment> \<open>\<open>float(a)\<close>\<close>
  "py_float h a =
     (case a of
        Num r \<Rightarrow> Inr r
      | Str s \<Rightarrow> (case float_of_str h s of None \<Rightarrow> Inl ValueError | Some r \<Rightarrow> Inr r))"

definition fill_value_of :: "host \<Rightarrow> variable \<Rightarrow> py_error + real" where
  "fill_value_of h var =
     (case attrs var ''_FillValue'' of
        Some a \<Rightarrow> py_float h a
      | None \<Rightarrow>
          (case attrs var ''missing_value'' of
             Some a \<Rightarrow> py_float h a
           | None \<Rightarrow> Inr (- 9999)))"

definition scale_factor_of :: "host \<Rightarrow> variable \<Rightarrow> py_error + real" where
  "scale_factor_of h var = py_float h (attr_or var ''scale_factor'' 1)"

definition add_offset_of :: "host \<Rightarrow> variable \<Rightarrow> py_error + real" where
  "add_offset_of h var = py_float h (attr_or var ''add_offset'' 0)"

definition masked_equal :: "real list \<Rightarrow> real \<Rightarrow> cell list" where
  "masked_equal vs fill = map (\<lambda>v. if v = fill then Masked else Valid v) vs"

definition linearize :: "real \<Rightarrow> real \<Rightarrow> cell \<Rightarrow> cell" where
  \<comment> \<open>\<open>data * scale_factor + add_offset\<close> on one cell of the masked array\<close>
  "linearize s off c = (case c of Masked \<Rightarrow> Masked | Valid v \<Rightarrow> Valid (v * s + off))"

definition normalize :: "host \<Rightarrow> variable \<Rightarrow> py_error + grid \<times> real" where
  \<comment> \<open>the grid and the no-data value, both after scaling\<close>
  "normalize h var =
     andthen (fill_value_of h var) (\<lambda>fill_value.
     andthen (scale_factor_of h var) (\<lambda>scale_factor.
     andthen (add_offset_of h var) (\<lambda>add_offset.
       Inr (\<lparr>extents = shp (fetch var),
             cells = map (linearize scale_factor add_offset)
                         (masked_equal (map (float32 h) (elems (fetch var))) fill_value)\<rparr>,
            fill_value * scale_factor + add_offset))))"

definition allocate :: "host \<Rightarrow> grid \<Rightarrow> py_error + raster" where
  \<comment> \<open>the driver, \<open>data.shape[1]\<close> and \<open>data.shape[0]\<close>, \<open>driver.Create\<close>\<close>
  "allocate h g =
     (if \<not> gtiff_driver h then Inl RuntimeError
      else case extents g of
        rows # cols # rest \<Rightarrow>
          if create_ok h cols rows
          then Inr \<lparr>xsize = cols, ysize = rows, projection = None, geotransform = None,
                    band = None, nodata = None, statistics = False\<rparr>
          else Inl RuntimeError
      | _ \<Rightarrow> Inl IndexError)"

definition set_projection :: "dataset \<Rightarrow> raster \<Rightarrow> py_error + raster" where
  \<comment> \<open>\<open>if srs: out_ds.SetProjection(srs.ExportToWkt())\<close>: the reference object is true
      whenever the classifier returned one. The field records the object whose export was
      passed; for \<open>Blank\<close> that export describes no reference.\<close>
  "set_projection ds r =
     andthen (get_projection_info ds) (\<lambda>info.
       case info of
         None \<Rightarrow> Inr r
       | Some (s, grid_mapping) \<Rightarrow> Inr (r\<lparr>projection := Some s\<rparr>))"

definition set_geotransform :: "dataset \<Rightarrow> variable \<Rightarrow> raster \<Rightarrow> py_error + raster" where
  "set_geotransform ds var r =
     (case get_geotransform ds var of
        None \<Rightarrow> Inr r
      | Some (gt, coord_names) \<Rightarrow> Inr (r\<lparr>geotransform := Some gt\<rparr>))"

definition write_band :: "host \<Rightarrow> grid \<Rightarrow> raster \<Rightarrow> py_error + raster" where
  "write_band h g r =
     (if \<not> band_ok h then Inl RuntimeError
      else andthen (write_array h (extents g)) (\<lambda>write_status.
             if write_status \<noteq> 0 then Inl RuntimeError else Inr (r\<lparr>band := Some g\<rparr>)))"

definition set_nodata :: "host \<Rightarrow> real \<Rightarrow> raster \<Rightarrow> py_error + raster" where
  \<comment> \<open>a refusal of the no-data value is logged as a warning only\<close>
  "set_nodata h fill_value r =
     (if nodata_ok h fill_value then Inr (r\<lparr>nodata := Some fill_value\<rparr>) else Inr r)"

definition compute_statistics :: "host \<Rightarrow> raster \<Rightarrow> py_error + raster" where
  "compute_statistics h r =
     (if statistics_ok h then Inr (r\<lparr>statistics := True\<rparr>) else Inl RuntimeError)"

fun run :: "(raster \<Rightarrow> py_error + raster) list \<Rightarrow> raster \<Rightarrow> raster \<times> py_error option" where
  \<comment> \<open>the statements on the open raster in turn; an exception leaves it as it was\<close>
  "run [] r = (r, None)"
| "run (f # fs) r = (case f r of Inl e \<Rightarrow> (r, Some e) | Inr r' \<Rightarrow> run fs r')"

definition finish :: "host \<Rightarrow> outcome \<Rightarrow> raster \<times> py_error option \<Rightarrow> outcome" where
  "finish h st res =
     (case snd res of
        Some e \<Rightarrow> st\<lparr>out_ds := Some (fst res), messages := [Caught e]\<rparr>
      | None \<Rightarrow>
          if layer_valid h then st\<lparr>out_ds := Some (fst res), layer_added := True\<rparr>
          else st\<lparr>out_ds := Some (fst res), messages := [LayerInvalid]\<rparr>)"

definition render :: "host \<Rightarrow> dataset \<Rightarrow> variable \<Rightarrow> outcome \<Rightarrow> outcome" where
  \<comment> \<open>\<open>visualize\<close> from the temporary file on\<close>
  "render h ds var st =
     (case normalize h var of
        Inl e \<Rightarrow> st\<lparr>messages := [Caught e]\<rparr>
      | Inr (g, fill_value) \<Rightarrow>
          (case allocate h g of
             Inl e \<Rightarrow> st\<lparr>messages := [Caught e]\<rparr>
           | Inr r \<Rightarrow>
               finish h st (run [set_projection ds, set_geotransform ds var, write_band h g,
                                 set_nodata h fill_value, compute_statistics h] r)))"

definition visualize :: "host \<Rightarrow> dataset \<Rightarrow> string \<Rightarrow> outcome" where
  "visualize h ds name =
     (if name = [] then idle
      else case variables ds name of
        None \<Rightarrow> idle\<lparr>messages := [Caught KeyError]\<rparr>
      | Some var \<Rightarrow>
          if length (shape var) < 2 then idle\<lparr>messages := [TooFewDimensions name]\<rparr>
          else render h ds var (idle\<lparr>temp_file := True\<rparr>))"

section \<open>Sample inputs\<close>

text \<open>
  A host on which every library call succeeds: numbers are kept as they are by the
  32-bit conversion, a two-dimensional array is written with status 0 and any other
  array is refused, and \<open>float()\<close> reads plain decimal numerals.
\<close>

definition digit_of :: "char \<Rightarrow> nat option" where
  "digit_of c =
     (let n = (of_char c :: nat) in if 48 \<le> n \<and> n \<le> 57 then Some (n - 48) else None)"

fun digits_value :: "string \<Rightarrow> nat \<Rightarrow> nat option" where
  "digits_value [] acc = Some acc"
| "digits_value (c # cs) acc =
     (case digit_of c of None \<Rightarrow> None | Some d \<Rightarrow> digits_value cs (10 * acc + d))"

definition read_decimal :: "string \<Rightarrow> real option" where
  "read_decimal s =
     (let negative = (take 1 s = ''-'');
          body = (if take 1 s = ''-'' \<or> take 1 s = ''+'' then drop 1 s else s);
          whole = takeWhile (\<lambda>c. c \<noteq> CHR ''.'') body;
          frac = drop 1 (dropWhile (\<lambda>c. c \<noteq> CHR ''.'') body)
      in if whole = [] \<and> frac = [] then None
         else case (digits_value whole 0, digits_value frac 0) of
                (Some i, Some f) \<Rightarrow>
                  Some ((if negative then - 1 else 1) * (real i + real f / 10 ^ length frac))
              | _ \<Rightarrow> None)"

definition demo_host :: host where
  "demo_host =
     \<lparr>float_of_str = read_decimal, float32 = (\<lambda>v. v), gtiff_driver = True,
      create_ok = (\<lambda>cols rows. True), band_ok = True,
      write_array = (\<lambda>s. if length s = 2 then Inr 0 else Inl ValueError),
      nodata_ok = (\<lambda>v. True), statistics_ok = True, layer_valid = True\<rparr>"

definition axis :: "string \<Rightarrow> real list \<Rightarrow> variable" where
  \<comment> \<open>a one-dimensional coordinate variable over the dimension of its own name\<close>
  "axis nm vs = \<lparr>var_name = nm, dimensions = [nm], shape = [length vs],
                 attrs = Map.empty, payload = vs\<rparr>"

definition field :: "string list \<Rightarrow> nat list \<Rightarrow> (string \<times> attr_value) list \<Rightarrow> real list \<Rightarrow> variable" where
  \<comment> \<open>a data variable named \<open>t\<close>\<close>
  "field dims sh kvs vs = \<lparr>var_name = ''t'', dimensions = dims, shape = sh,
                            attrs = map_of kvs, payload = vs\<rparr>"

definition marker :: "string \<Rightarrow> (string \<times> attr_value) list \<Rightarrow> variable" where
  \<comment> \<open>a grid-mapping variable: attributes only\<close>
  "marker nm kvs = \<lparr>var_name = nm, dimensions = [], shape = [],
                     attrs = map_of kvs, payload = [0]\<rparr>"

definition dataset_of :: "variable list \<Rightarrow> dataset" where
  "dataset_of vs = \<lparr>variables = map_of (map (\<lambda>v. (var_name v, v)) vs)\<rparr>"

definition plain_field :: variable where
  "plain_field = field [''y'', ''x''] [2, 2] [] [1, 2, 3, 4]"

definition ascending_ds :: dataset where
  \<comment> \<open>Y stored south to north\<close>
  "ascending_ds = dataset_of [axis ''x'' [0, 10], axis ''y'' [5, 8], plain_field]"

definition empty_axis_ds :: dataset where
  "empty_axis_ds = dataset_of [axis ''x'' [], axis ''y'' [5, 8], plain_field]"

definition lon_field :: variable where
  "lon_field = field [''y'', ''x''] [2, 2] [(''coordinates'', Str ''lon'')] [1, 2, 3, 4]"

definition mixed_ds :: dataset where
  \<comment> \<open>the coordinates attribute names an X variable only; both dimensions have variables\<close>
  "mixed_ds = dataset_of [axis ''lon'' [100, 110], axis ''x'' [0, 10], axis ''y'' [5, 8],
                          lon_field]"

definition lonlat_field :: variable where
  "lonlat_field = field [''y'', ''x''] [2, 2] [(''coordinates'', Str ''lon lat'')] [1, 2, 3, 4]"

definition lonlat_ds :: dataset where
  "lonlat_ds = dataset_of [axis ''lon'' [100, 110], axis ''lat'' [40, 50], axis ''x'' [0, 10],
                           axis ''y'' [5, 8], lonlat_field]"

definition goes_text_ds :: dataset where
  "goes_text_ds =
     dataset_of [marker ''goes_imager_projection'' [(''perspective_point_height'', Str ''high'')],
                 axis ''x'' [1, 2], axis ''y'' [2, 1], plain_field]"

definition text_fill_field :: variable where
  "text_fill_field = field [''y'', ''x''] [2, 2] [(''_FillValue'', Str ''n/a'')] [1, 2, 3, 4]"

definition text_fill_ds :: dataset where
  "text_fill_ds = dataset_of [axis ''x'' [0, 10], axis ''y'' [8, 5], text_fill_field]"

definition text_scale_field :: variable where
  "text_scale_field = field [''y'', ''x''] [2, 2] [(''scale_factor'', Str ''2.5'')] [1, 2, 3, 4]"

definition text_scale_ds :: dataset where
  "text_scale_ds = dataset_of [text_scale_field]"

definition stack_field :: variable where
  \<comment> \<open>two time steps of a grid of 3 rows and 4 columns\<close>
  "stack_field = field [''time'', ''y'', ''x''] [2, 3, 4] [] (replicate 24 0)"

definition stack_ds :: dataset where
  "stack_ds = dataset_of [stack_field]"

definition mercator_ds :: dataset where
  \<comment> \<open>a grid-mapping variable whose name is none of the five\<close>
  "mercator_ds = dataset_of [marker ''crs'' [(''grid_mapping_name'', Str ''mercator'')],
                             plain_field]"

definition packed_field :: variable where
  "packed_field = field [''y'', ''x''] [2, 2]
     [(''_FillValue'', Num (- 999)), (''scale_factor'', Num 2), (''add_offset'', Num 1)]
     [1, - 999, 3, 4]"

definition packed_ds :: dataset where
  "packed_ds = dataset_of [packed_field]"

definition bare_ds :: dataset where
  \<comment> \<open>no coordinate variable at all\<close>
  "bare_ds = dataset_of [plain_field]"

section \<open>Notions used in the statements\<close>

definition sel_ok :: "dataset \<Rightarrow> sel \<Rightarrow> bool" where
  \<comment> \<open>a selected coordinate variable is the dataset's variable of the selected name\<close>
  "sel_ok ds s = (case s of None \<Rightarrow> True | Some (v, nm) \<Rightarrow> variables ds nm = Some v)"

text \<open>
  The outcome of one loop of the coordinate search, said without the loop: a name
  classifies for X when it names a dataset variable and is one of the X names or the
  variable's \<open>axis\<close> is \<open>X\<close>; it classifies for Y when it names a dataset variable,
  does not classify for X, and is one of the Y names or the variable's \<open>axis\<close> is
  \<open>Y\<close>. Over a list of names an axis becomes the variable of the last name that
  classifies for it, and stays as it was when none does.
\<close>

definition x_match :: "dataset \<Rightarrow> string \<Rightarrow> bool" where
  "x_match ds nm =
     (case variables ds nm of
        None \<Rightarrow> False
      | Some cv \<Rightarrow> nm \<in> set x_coords \<or> has_axis cv ''X'')"

definition y_match :: "dataset \<Rightarrow> string \<Rightarrow> bool" where
  "y_match ds nm =
     (case variables ds nm of
        None \<Rightarrow> False
      | Some cv \<Rightarrow> \<not> (nm \<in> set x_coords \<or> has_axis cv ''X'')
                   \<and> (nm \<in> set y_coords \<or> has_axis cv ''Y''))"

definition chosen :: "dataset \<Rightarrow> (string \<Rightarrow> bool) \<Rightarrow> string list \<Rightarrow> sel \<Rightarrow> sel" where
  "chosen ds p nms s =
     (case filter p nms of
        [] \<Rightarrow> s
      | m # ms \<Rightarrow> map_option (\<lambda>cv. (cv, last (m # ms))) (variables ds (last (m # ms))))"

definition has_reference :: "raster \<Rightarrow> bool" where
  \<comment> \<open>the raster was given a spatial reference: a reference object with a definition\<close>
  "has_reference r = (case projection r of None \<Rightarrow> False | Some s \<Rightarrow> s \<noteq> Blank)"

section \<open>The transform has six elements\<close>

lemma build_geotransform_length:
  "build_geotransform ds xv yv = Inr gt \<Longrightarrow> length gt = 6"
  by (auto simp: build_geotransform_def andthen_def split: sum.splits prod.splits if_splits)

section \<open>Evaluation of the sample inputs\<close>

lemmas sample_defs = demo_host_def axis_def field_def marker_def dataset_of_def plain_field_def
  ascending_ds_def empty_axis_ds_def lon_field_def mixed_ds_def lonlat_field_def lonlat_ds_def
  goes_text_ds_def text_scale_field_def text_scale_ds_def text_fill_field_def text_fill_ds_def stack_field_def stack_ds_def
  mercator_ds_def packed_field_def packed_ds_def bare_ds_def

lemmas resolver_defs = resolve_def from_coordinates_def from_dimensions_def classify_def
  x_coords_def y_coords_def has_axis_def split_ws_def is_space_def andthen_def

lemmas builder_defs = build_geotransform_def reduce_x_def reduce_y_def fetch_def ascending_def
  nd_len_def nd_item_def first_column_def goes_scale_def goes_height_def attr_or_def times_def
  pixel_size_def to_float_def first_element_def last_element_def truth_def

lemma body_empty_axis: "geotransform_body empty_axis_ds plain_field = Inl IndexError"
  by (simp add: geotransform_body_def resolver_defs builder_defs sample_defs)

section \<open>The coordinate search selects dataset variables\<close>

lemma classify_ok:
  "sel_ok ds (fst acc) \<Longrightarrow> sel_ok ds (snd acc) \<Longrightarrow>
   sel_ok ds (fst (classify ds nm acc)) \<and> sel_ok ds (snd (classify ds nm acc))"
  by (auto simp: classify_def sel_ok_def split: option.splits)

lemma scan_ok:
  "sel_ok ds (fst acc) \<Longrightarrow> sel_ok ds (snd acc) \<Longrightarrow>
   sel_ok ds (fst (scan ds nms acc)) \<and> sel_ok ds (snd (scan ds nms acc))"
proof (induction nms arbitrary: acc)
  case Nil
  then show ?case by simp
next
  case (Cons nm nms)
  from classify_ok[OF Cons.prems] Cons.IH show ?case by simp
qed

lemma resolve_ok:
  assumes "resolve ds var = Inr acc"
  shows "sel_ok ds (fst acc) \<and> sel_ok ds (snd acc)"
proof -
  obtain a where a: "from_coordinates ds var = Inr a" and acc: "acc = from_dimensions ds var a"
    using assms by (auto simp: resolve_def andthen_def split: sum.splits)
  have none: "sel_ok ds (fst (None, None))" "sel_ok ds (snd (None, None))"
    by (simp_all add: sel_ok_def)
  have "sel_ok ds (fst a) \<and> sel_ok ds (snd a)"
  proof (cases "attrs var ''coordinates''")
    case None
    with a have "a = (None, None)" by (simp add: from_coordinates_def)
    then show ?thesis by (simp add: sel_ok_def)
  next
    case (Some c)
    with a obtain s where "a = scan ds (split_ws s) (None, None)"
      by (cases c) (auto simp: from_coordinates_def)
    with scan_ok[OF none] show ?thesis by simp
  qed
  then show ?thesis
    using scan_ok[of ds a "dimensions var"] by (simp add: acc from_dimensions_def)
qed

section \<open>The loop of the coordinate search, said without the loop\<close>

lemma chosen_Cons_x:
  "chosen ds (x_match ds) (nm # nms) s = chosen ds (x_match ds) nms (fst (classify ds nm (s, t)))"
  by (auto simp: chosen_def classify_def x_match_def split: option.splits list.splits)

lemma chosen_Cons_y:
  "chosen ds (y_match ds) (nm # nms) t = chosen ds (y_match ds) nms (snd (classify ds nm (s, t)))"
  by (auto simp: chosen_def classify_def y_match_def split: option.splits list.splits)

lemma scan_chosen:
  "scan ds nms acc = (chosen ds (x_match ds) nms (fst acc), chosen ds (y_match ds) nms (snd acc))"
proof (induction nms arbitrary: acc)
  case Nil
  then show ?case by (simp add: chosen_def)
next
  case (Cons nm nms)
  obtain s t where acc: "acc = (s, t)" by (cases acc) auto
  show ?case
    using Cons.IH[of "classify ds nm acc"] chosen_Cons_x[of ds nm nms s t]
      chosen_Cons_y[of ds nm nms t s]
    by (simp add: acc)
qed

lemma from_coordinates_mixed:
  "from_coordinates mixed_ds lon_field = Inr (Some (axis ''lon'' [100, 110], ''lon''), None)"
  by (simp add: resolver_defs sample_defs)

lemma chosen_mixed:
  "chosen mixed_ds (x_match mixed_ds) (dimensions lon_field)
     (Some (axis ''lon'' [100, 110], ''lon'')) = Some (axis ''x'' [0, 10], ''x'')"
  "chosen mixed_ds (y_match mixed_ds) (dimensions lon_field) None
     = Some (axis ''y'' [5, 8], ''y'')"
  by (simp_all add: chosen_def x_match_def y_match_def x_coords_def y_coords_def has_axis_def
      sample_defs)

lemma from_coordinates_lonlat:
  "from_coordinates lonlat_ds lonlat_field =
     Inr (Some (axis ''lon'' [100, 110], ''lon''), Some (axis ''lat'' [40, 50], ''lat''))"
  by (simp add: resolver_defs sample_defs)

section \<open>The statements of visualize\<close>

lemmas projection_defs = get_projection_info_def proj_vars_def make_srs_def num_arg_def

lemmas visualize_defs = visualize_def render_def finish_def idle_def normalize_def
  fill_value_of_def scale_factor_of_def add_offset_of_def py_float_def masked_equal_def
  linearize_def allocate_def set_projection_def set_geotransform_def write_band_def
  set_nodata_def compute_statistics_def

lemma get_geotransform_stack: "get_geotransform stack_ds stack_field = None"
  by (simp add: get_geotransform_def geotransform_body_def resolver_defs sample_defs)

lemma projection_stack: "get_projection_info stack_ds = Inr None"
  by (simp add: projection_defs sample_defs)

lemmas step_defs = set_projection_def set_geotransform_def write_band_def set_nodata_def
  compute_statistics_def andthen_def

lemma run_steps_eq:
  "run [set_projection ds, set_geotransform ds var, write_band h g, set_nodata h nd,
        compute_statistics h] r0 =
   (case get_projection_info ds of
      Inl e \<Rightarrow> (r0, Some e)
    | Inr info \<Rightarrow>
        (let r1 = (case info of None \<Rightarrow> r0 | Some p \<Rightarrow> r0\<lparr>projection := Some (fst p)\<rparr>);
             r2 = (case get_geotransform ds var of None \<Rightarrow> r1
                   | Some p \<Rightarrow> r1\<lparr>geotransform := Some (fst p)\<rparr>)
         in if \<not> band_ok h then (r2, Some RuntimeError)
            else case write_array h (extents g) of
              Inl e \<Rightarrow> (r2, Some e)
            | Inr status \<Rightarrow>
                if status \<noteq> 0 then (r2, Some RuntimeError)
                else (let r3 = r2\<lparr>band := Some g\<rparr>;
                          r4 = (if nodata_ok h nd then r3\<lparr>nodata := Some nd\<rparr> else r3)
                      in if statistics_ok h then (r4\<lparr>statistics := True\<rparr>, None)
                         else (r4, Some RuntimeError))))"
  by (simp add: step_defs Let_def split: sum.splits option.splits prod.splits)

lemma run_steps:
  assumes "run [set_projection ds, set_geotransform ds var, write_band h g, set_nodata h nd,
                compute_statistics h] r0 = (r, e)"
  shows "xsize r = xsize r0 \<and> ysize r = ysize r0"
    and "band r = band r0 \<or> band r = Some g"
    and "nodata r = nodata r0 \<or> (band r = Some g \<and> nodata_ok h nd \<and> nodata r = Some nd)"
    and "band r = Some g \<Longrightarrow> band r0 = None \<Longrightarrow> nodata r0 = None \<Longrightarrow>
         nodata r = (if nodata_ok h nd then Some nd else None)"
proof -
  note eq = assms[unfolded run_steps_eq Let_def]
  show "xsize r = xsize r0 \<and> ysize r = ysize r0"
    using eq by (auto split: sum.splits option.splits if_splits)
  show "band r = band r0 \<or> band r = Some g"
    using eq by (auto split: sum.splits option.splits if_splits)
  show "nodata r = nodata r0 \<or> (band r = Some g \<and> nodata_ok h nd \<and> nodata r = Some nd)"
    using eq by (auto split: sum.splits option.splits if_splits)
  show "band r = Some g \<Longrightarrow> band r0 = None \<Longrightarrow> nodata r0 = None \<Longrightarrow>
         nodata r = (if nodata_ok h nd then Some nd else None)"
    using eq by (auto split: sum.splits option.splits if_splits)
qed

lemma visualize_out:
  assumes "variables ds name = Some var" "name \<noteq> []" "out_ds (visualize h ds name) = Some r"
  shows "\<exists>g nd r0 e. normalize h var = Inr (g, nd) \<and> allocate h g = Inr r0
           \<and> run [set_projection ds, set_geotransform ds var, write_band h g, set_nodata h nd,
                   compute_statistics h] r0 = (r, e)"
proof -
  have big: "\<not> length (shape var) < 2"
    using assms by (auto simp: visualize_def idle_def)
  then have v: "visualize h ds name = render h ds var (idle\<lparr>temp_file := True\<rparr>)"
    using assms by (simp add: visualize_def)
  show ?thesis
  proof (cases "normalize h var")
    case (Inl e)
    with assms(3) v show ?thesis by (simp add: render_def idle_def)
  next
    case (Inr p)
    obtain g nd where p: "p = (g, nd)" by (cases p) auto
    show ?thesis
    proof (cases "allocate h g")
      case (Inl e)
      with assms(3) v Inr p show ?thesis by (simp add: render_def idle_def)
    next
      case r0: (Inr r0)
      obtain r' e where run: "run [set_projection ds, set_geotransform ds var, write_band h g,
          set_nodata h nd, compute_statistics h] r0 = (r', e)"
        by (cases "run [set_projection ds, set_geotransform ds var, write_band h g,
          set_nodata h nd, compute_statistics h] r0") auto
      have "out_ds (visualize h ds name) = Some r'"
        unfolding v render_def finish_def using Inr p r0 run
        by (simp del: run.simps split: option.splits)
      with assms(3) have "r' = r" by simp
      with Inr p r0 run show ?thesis by blast
    qed
  qed
qed

lemma normalize_grid:
  assumes "normalize h var = Inr (g, nd)"
  shows "\<exists>f s off. fill_value_of h var = Inr f \<and> scale_factor_of h var = Inr s
           \<and> add_offset_of h var = Inr off \<and> nd = f * s + off \<and> extents g = shape var
           \<and> cells g = map (\<lambda>raw. if float32 h raw = f then Masked
                                   else Valid (float32 h raw * s + off)) (payload var)"
  using assms
  by (auto simp: normalize_def andthen_def fetch_def masked_equal_def linearize_def
      split: sum.splits)

lemma allocate_extents:
  assumes "allocate h g = Inr r0"
  shows "\<exists>rows cols rest. extents g = rows # cols # rest \<and> xsize r0 = cols \<and> ysize r0 = rows
          \<and> band r0 = None \<and> nodata r0 = None \<and> projection r0 = None
          \<and> geotransform r0 = None"
  using assms by (auto simp: allocate_def split: if_splits list.splits)

section \<open>Sample requests\<close>

lemma ascending_x: "variables ascending_ds ''x'' = Some (axis ''x'' [0, 10])"
  by (simp add: sample_defs)

lemma demo_host_fields:
  "float_of_str demo_host = read_decimal" "float32 demo_host v = v" "gtiff_driver demo_host"
  "create_ok demo_host cols rows" "band_ok demo_host"
  "write_array demo_host sh = (if length sh = 2 then Inr 0 else Inl ValueError)"
  "nodata_ok demo_host v" "statistics_ok demo_host" "layer_valid demo_host"
  by (simp_all add: demo_host_def)

lemma get_geotransform_bare: "get_geotransform bare_ds plain_field = None"
  by (simp add: get_geotransform_def geotransform_body_def resolver_defs sample_defs)

lemma projection_bare: "get_projection_info bare_ds = Inr None"
  by (simp add: projection_defs sample_defs)

lemma variables_bare: "variables bare_ds ''t'' = Some plain_field"
  by (simp add: sample_defs)

lemma normalize_plain:
  "normalize demo_host plain_field =
     Inr (\<lparr>extents = [2, 2], cells = [Valid 1, Valid 2, Valid 3, Valid 4]\<rparr>, - 9999)"
  by (simp add: normalize_def fill_value_of_def scale_factor_of_def add_offset_of_def
      py_float_def attr_or_def masked_equal_def linearize_def andthen_def fetch_def
      plain_field_def field_def demo_host_fields)

lemma visualize_bare:
  "visualize demo_host bare_ds ''t'' =
     \<lparr>temp_file = True,
      out_ds = Some \<lparr>xsize = 2, ysize = 2, projection = None, geotransform = None,
                     band = Some \<lparr>extents = [2, 2],
                                  cells = [Valid 1, Valid 2, Valid 3, Valid 4]\<rparr>,
                     nodata = Some (- 9999), statistics = True\<rparr>,
      layer_added = True, messages = []\<rparr>"
proof -
  have s: "shape plain_field = [2, 2]" by (simp add: plain_field_def field_def)
  show ?thesis
    by (simp add: visualize_def render_def variables_bare s normalize_plain allocate_def
        step_defs get_geotransform_bare projection_bare finish_def idle_def demo_host_fields)
qed

lemma run_projection:
  assumes "run [set_projection ds, set_geotransform ds var, write_band h g, set_nodata h nd,
                compute_statistics h] r0 = (r, e)"
    and "get_projection_info ds = Inr (Some (s, nm))"
  shows "projection r = Some s"
  using assms(1) unfolding run_steps_eq Let_def assms(2)
  by (auto split: sum.splits option.splits if_splits)

lemma variables_mercator: "variables mercator_ds ''t'' = Some plain_field"
  by (simp add: sample_defs)

lemma find_mercator:
  "find_proj_var mercator_ds proj_vars =
     Some (marker ''crs'' [(''grid_mapping_name'', Str ''mercator'')])"
  by (simp add: proj_vars_def sample_defs)

lemma projection_mercator: "get_projection_info mercator_ds = Inr (Some (Blank, ''crs''))"
  by (simp add: get_projection_info_def find_mercator make_srs_def marker_def andthen_def)

lemma get_geotransform_mercator: "get_geotransform mercator_ds plain_field = None"
  by (simp add: get_geotransform_def geotransform_body_def resolver_defs sample_defs)

lemma visualize_mercator:
  "visualize demo_host mercator_ds ''t'' =
     \<lparr>temp_file = True,
      out_ds = Some \<lparr>xsize = 2, ysize = 2, projection = Some Blank, geotransform = None,
                     band = Some \<lparr>extents = [2, 2],
                                  cells = [Valid 1, Valid 2, Valid 3, Valid 4]\<rparr>,
                     nodata = Some (- 9999), statistics = True\<rparr>,
      layer_added = True, messages = []\<rparr>"
proof -
  have s: "shape plain_field = [2, 2]" by (simp add: plain_field_def field_def)
  show ?thesis
    by (simp add: visualize_def render_def variables_mercator s normalize_plain allocate_def
        step_defs get_geotransform_mercator projection_mercator finish_def idle_def
        demo_host_fields)
qed




section \<open>Attributes that are not numbers\<close>




section \<open>A packed variable\<close>


lemma variables_packed: "variables packed_ds ''t'' = Some packed_field"
  by (simp add: sample_defs)

lemma packed_attributes:
  "fill_value_of demo_host packed_field = Inr (- 999)"
  "scale_factor_of demo_host packed_field = Inr 2"
  "add_offset_of demo_host packed_field = Inr 1"
  by (simp_all add: fill_value_of_def scale_factor_of_def add_offset_of_def attr_or_def
      py_float_def packed_field_def field_def)

lemma plain_attributes:
  "fill_value_of demo_host plain_field = Inr (- 9999)"
  "scale_factor_of demo_host plain_field = Inr 1"
  "add_offset_of demo_host plain_field = Inr 0"
  by (simp_all add: fill_value_of_def scale_factor_of_def add_offset_of_def attr_or_def
      py_float_def plain_field_def field_def)

lemma get_geotransform_packed: "get_geotransform packed_ds packed_field = None"
  by (simp add: get_geotransform_def geotransform_body_def resolver_defs sample_defs)

lemma projection_packed: "get_projection_info packed_ds = Inr None"
  by (simp add: projection_defs sample_defs)

lemma normalize_packed:
  "normalize demo_host packed_field =
     Inr (\<lparr>extents = [2, 2], cells = [Valid 3, Masked, Valid 7, Valid 9]\<rparr>, - 1997)"
  unfolding normalize_def packed_attributes andthen_def
  by (simp add: masked_equal_def linearize_def fetch_def demo_host_fields packed_field_def
      field_def)

lemma visualize_packed:
  "visualize demo_host packed_ds ''t'' =
     \<lparr>temp_file = True,
      out_ds = Some \<lparr>xsize = 2, ysize = 2, projection = None, geotransform = None,
                     band = Some \<lparr>extents = [2, 2],
                                  cells = [Valid 3, Masked, Valid 7, Valid 9]\<rparr>,
                     nodata = Some (- 1997), statistics = True\<rparr>,
      layer_added = True, messages = []\<rparr>"
proof -
  have s: "shape packed_field = [2, 2]" by (simp add: packed_field_def field_def)
  show ?thesis
    by (simp add: visualize_def render_def variables_packed s normalize_packed allocate_def
        step_defs get_geotransform_packed projection_packed finish_def idle_def
        demo_host_fields)
qed

section \<open>A request without a geotransform\<close>






section \<open>Claims\<close>

text \<open>
  C1. The claim: for every resolved coordinate pair whose axes have at least two elements,
  the sixth element of the geotransform is strictly negative and the fourth is the topmost
  Y, whether Y is stored ascending or descending. The code negates the pixel height in the
  ascending branch and again when it builds the list, so for an ascending Y the sixth
  element is positive: with X = [0, 10] and Y = [5, 8] the transform is
  [0, 10, 0, 8, 0, 3].
\<close>

theorem ascending_y_height_positive:
  "get_geotransform ascending_ds plain_field = Some ([0, 10, 0, 8, 0, 3], ''x'', ''y'')"
  by (simp add: get_geotransform_def geotransform_body_def resolver_defs builder_defs sample_defs)

text \<open>
  C2. The claim: the grid of a variable of rank at least 2 has the extents of its last two
  dimensions, the leading dimensions of a variable of higher rank being reduced by a
  default slice, so that the raster has those extents. The code takes no slice: for a
  variable of shape (2, 3, 4) the normalized grid has the shape (2, 3, 4), the raster is
  allocated 3 wide and 2 high, from the first two extents, and the array of rank 3 goes to
  the band, which is not written.
\<close>

theorem stack_raster_extents:
  "shape stack_field = [2, 3, 4]
   \<and> map_sum id (\<lambda>p. extents (fst p)) (normalize demo_host stack_field) = Inr [2, 3, 4]
   \<and> visualize demo_host stack_ds ''t'' =
       \<lparr>temp_file = True,
        out_ds = Some \<lparr>xsize = 3, ysize = 2, projection = None, geotransform = None,
                       band = None, nodata = None, statistics = False\<rparr>,
        layer_added = False, messages = [Caught ValueError]\<rparr>"
proof -
  have v: "variables stack_ds ''t'' = Some stack_field" by (simp add: sample_defs)
  have s: "shape stack_field = [2, 3, 4]" by (simp add: sample_defs)
  have a: "attrs stack_field = Map.empty" by (simp add: sample_defs)
  have n: "map_sum id (\<lambda>p. extents (fst p)) (normalize demo_host stack_field) = Inr [2, 3, 4]"
    by (simp add: normalize_def fill_value_of_def scale_factor_of_def add_offset_of_def
        py_float_def a attr_or_def andthen_def fetch_def s)
  have o: "visualize demo_host stack_ds ''t'' =
       \<lparr>temp_file = True,
        out_ds = Some \<lparr>xsize = 3, ysize = 2, projection = None, geotransform = None,
                       band = None, nodata = None, statistics = False\<rparr>,
        layer_added = False, messages = [Caught ValueError]\<rparr>"
    by (simp add: s visualize_defs v a attr_or_def andthen_def fetch_def
        get_geotransform_stack projection_stack demo_host_fields)
  from s n o show ?thesis by simp
qed

text \<open>
  C3. The claim: the dimension-name fallback runs only for an axis still unresolved after the
  coordinates attribute, and never replaces an axis resolved from it. In the code the
  fallback loop runs whenever either axis is unresolved and assigns both axes: with
  \<open>coordinates = "lon"\<close> and dimensions \<open>(y, x)\<close> that have variables, X is first
  \<open>lon\<close> and then replaced by \<open>x\<close>.
\<close>

theorem fallback_replaces_resolved_axis:
  "from_coordinates mixed_ds lon_field = Inr (Some (axis ''lon'' [100, 110], ''lon''), None)
   \<and> resolve mixed_ds lon_field =
       Inr (Some (axis ''x'' [0, 10], ''x''), Some (axis ''y'' [5, 8], ''y''))"
  by (simp add: resolver_defs sample_defs)

text \<open>
  C3 as amended. The coordinates attribute, when present, is searched first, over the names
  it lists. The fallback over the dimension names runs only when at least one axis is
  unresolved after that: when both are resolved there, the pair is returned as it is. When
  the fallback runs, each axis becomes the dataset variable named by the last dimension
  that classifies for that axis, and keeps what the coordinates attribute gave, resolved
  or not, when no dimension classifies for it.
\<close>

theorem fallback_fills_from_dimensions:
  assumes "from_coordinates ds var = Inr (xs, ys)"
  shows "(attrs var ''coordinates'' = None \<longrightarrow> xs = None \<and> ys = None)
    \<and> (\<forall>s. attrs var ''coordinates'' = Some (Str s) \<longrightarrow>
           xs = chosen ds (x_match ds) (split_ws s) None
           \<and> ys = chosen ds (y_match ds) (split_ws s) None)
    \<and> (xs \<noteq> None \<and> ys \<noteq> None \<longrightarrow> resolve ds var = Inr (xs, ys))
    \<and> (xs = None \<or> ys = None \<longrightarrow>
           resolve ds var = Inr (chosen ds (x_match ds) (dimensions var) xs,
                                 chosen ds (y_match ds) (dimensions var) ys))"
proof -
  have r: "resolve ds var = Inr (from_dimensions ds var (xs, ys))"
    using assms by (simp add: resolve_def andthen_def)
  have 1: "attrs var ''coordinates'' = None \<longrightarrow> xs = None \<and> ys = None"
    using assms by (auto simp: from_coordinates_def)
  have 2: "\<forall>s. attrs var ''coordinates'' = Some (Str s) \<longrightarrow>
           xs = chosen ds (x_match ds) (split_ws s) None
           \<and> ys = chosen ds (y_match ds) (split_ws s) None"
    using assms by (auto simp: from_coordinates_def scan_chosen)
  have 3: "xs \<noteq> None \<and> ys \<noteq> None \<longrightarrow> resolve ds var = Inr (xs, ys)"
    by (simp add: r from_dimensions_def)
  have 4: "xs = None \<or> ys = None \<longrightarrow>
           resolve ds var = Inr (chosen ds (x_match ds) (dimensions var) xs,
                                 chosen ds (y_match ds) (dimensions var) ys)"
    by (simp add: r from_dimensions_def scan_chosen)
  show ?thesis
    apply (intro conjI)
       apply (rule 1)
      apply (rule 2)
     apply (rule 3)
    apply (rule 4)
    done
qed

theorem fallback_fills_from_dimensions_witness:
  "from_coordinates mixed_ds lon_field = Inr (Some (axis ''lon'' [100, 110], ''lon''), None)
   \<and> resolve mixed_ds lon_field =
       Inr (Some (axis ''x'' [0, 10], ''x''), Some (axis ''y'' [5, 8], ''y''))
   \<and> from_coordinates lonlat_ds lonlat_field =
       Inr (Some (axis ''lon'' [100, 110], ''lon''), Some (axis ''lat'' [40, 50], ''lat''))
   \<and> resolve lonlat_ds lonlat_field =
       Inr (Some (axis ''lon'' [100, 110], ''lon''), Some (axis ''lat'' [40, 50], ''lat''))"
proof -
  note a = fallback_fills_from_dimensions[OF from_coordinates_mixed]
  note b = fallback_fills_from_dimensions[OF from_coordinates_lonlat]
  from a have "resolve mixed_ds lon_field =
       Inr (chosen mixed_ds (x_match mixed_ds) (dimensions lon_field)
              (Some (axis ''lon'' [100, 110], ''lon'')),
            chosen mixed_ds (y_match mixed_ds) (dimensions lon_field) None)" by simp
  then have 1: "resolve mixed_ds lon_field =
       Inr (Some (axis ''x'' [0, 10], ''x''), Some (axis ''y'' [5, 8], ''y''))"
    by (simp only: chosen_mixed)
  from b have 2: "resolve lonlat_ds lonlat_field =
       Inr (Some (axis ''lon'' [100, 110], ''lon''), Some (axis ''lat'' [40, 50], ''lat''))"
    by simp
  from from_coordinates_mixed 1 from_coordinates_lonlat 2 show ?thesis by simp
qed

text \<open>
  C4. When a candidate grid-mapping variable exists and its \<open>grid_mapping_name\<close> is
  absent or none of the five names, the classifier returns, without raising, the reference
  object as constructed, which has no definition and no parameters, with the name of the
  variable; every raster that \<open>visualize\<close> allocates is then given the export of that
  blank object only: it carries no spatial reference, and none is defaulted.
\<close>

theorem unknown_mapping_no_reference:
  assumes "find_proj_var ds proj_vars = Some pv"
    and "attrs pv ''grid_mapping_name'' \<noteq> Some (Str ''latitude_longitude'')"
    and "attrs pv ''grid_mapping_name'' \<noteq> Some (Str ''transverse_mercator'')"
    and "attrs pv ''grid_mapping_name'' \<noteq> Some (Str ''lambert_conformal_conic'')"
    and "attrs pv ''grid_mapping_name'' \<noteq> Some (Str ''geostationary'')"
    and "attrs pv ''grid_mapping_name'' \<noteq> Some (Str ''polar_stereographic'')"
  shows "get_projection_info ds = Inr (Some (Blank, var_name pv))
     \<and> (\<forall>h name var r. variables ds name = Some var \<and> name \<noteq> []
            \<and> out_ds (visualize h ds name) = Some r
            \<longrightarrow> projection r = Some Blank \<and> \<not> has_reference r)"
proof -
  have m: "make_srs pv = Inr Blank"
    using assms(2-6) by (auto simp: make_srs_def split: option.splits)
  have info: "get_projection_info ds = Inr (Some (Blank, var_name pv))"
    by (simp add: get_projection_info_def assms(1) m andthen_def)
  have "projection r = Some Blank \<and> \<not> has_reference r"
    if "variables ds name = Some var" "name \<noteq> []" "out_ds (visualize h ds name) = Some r"
    for h name var r
  proof -
    from visualize_out[OF that] obtain g nd r0 e where
      "run [set_projection ds, set_geotransform ds var, write_band h g, set_nodata h nd,
            compute_statistics h] r0 = (r, e)" by blast
    from run_projection[OF this info] show ?thesis by (simp add: has_reference_def)
  qed
  with info show ?thesis by blast
qed

theorem unknown_mapping_no_reference_witness:
  "get_projection_info mercator_ds = Inr (Some (Blank, ''crs''))
   \<and> (\<exists>r. out_ds (visualize demo_host mercator_ds ''t'') = Some r \<and> projection r = Some Blank
          \<and> \<not> has_reference r)"
proof -
  let ?pv = "marker ''crs'' [(''grid_mapping_name'', Str ''mercator'')]"
  have a: "attrs ?pv ''grid_mapping_name'' \<noteq> Some (Str ''latitude_longitude'')"
    "attrs ?pv ''grid_mapping_name'' \<noteq> Some (Str ''transverse_mercator'')"
    "attrs ?pv ''grid_mapping_name'' \<noteq> Some (Str ''lambert_conformal_conic'')"
    "attrs ?pv ''grid_mapping_name'' \<noteq> Some (Str ''geostationary'')"
    "attrs ?pv ''grid_mapping_name'' \<noteq> Some (Str ''polar_stereographic'')"
    by (simp_all add: marker_def)
  note t = unknown_mapping_no_reference[OF find_mercator a]
  obtain r where r: "out_ds (visualize demo_host mercator_ds ''t'') = Some r"
    by (simp add: visualize_mercator)
  from t variables_mercator r have "projection r = Some Blank \<and> \<not> has_reference r" by blast
  with t r show ?thesis by (simp add: marker_def)
qed




text \<open>
  C6. For a target variable of rank below 2, \<open>visualize\<close> reports that the variable must
  have at least two dimensions and returns before the temporary file is made: no file and no
  raster exist afterwards, and no layer is added.
\<close>

theorem too_few_dimensions:
  assumes "variables ds name = Some var" "name \<noteq> []" "length (shape var) < 2"
  shows "visualize h ds name =
         \<lparr>temp_file = False, out_ds = None, layer_added = False,
          messages = [TooFewDimensions name]\<rparr>"
  using assms by (simp add: visualize_def idle_def)

theorem too_few_dimensions_witness:
  "visualize demo_host ascending_ds ''x'' =
     \<lparr>temp_file = False, out_ds = None, layer_added = False,
      messages = [TooFewDimensions ''x'']\<rparr>"
  using too_few_dimensions[OF ascending_x, of demo_host] by (simp add: axis_def)

text \<open>
  C8. The no-data value set on the band is \<open>fill * scale_factor + add_offset\<close>, the
  linearization applied to the data, whose cells equal to the raw fill value are masked
  before scaling; with scale 1 and offset 0 every cell that is not the fill value is the
  raw value converted to a 32-bit float. Here \<open>f\<close>, \<open>s\<close> and \<open>off\<close> are the fill value,
  scale and offset read from the variable, and \<open>float32 h\<close> is the conversion.
\<close>

theorem nodata_follows_scaling:
  assumes "variables ds name = Some var" "name \<noteq> []"
    and "out_ds (visualize h ds name) = Some r"
    and "fill_value_of h var = Inr f" "scale_factor_of h var = Inr s"
        "add_offset_of h var = Inr off"
  shows "(\<forall>v. nodata r = Some v \<longrightarrow> v = f * s + off)
     \<and> (band r \<noteq> None \<and> nodata_ok h (f * s + off) \<longrightarrow> nodata r = Some (f * s + off))
     \<and> (\<forall>g. band r = Some g \<longrightarrow> length (cells g) = length (payload var)
           \<and> (\<forall>i < length (payload var).
                 cells g ! i = (if float32 h (payload var ! i) = f then Masked
                                else Valid (float32 h (payload var ! i) * s + off))))
     \<and> (s = 1 \<and> off = 0 \<longrightarrow>
          (\<forall>g. band r = Some g \<longrightarrow>
             (\<forall>i < length (payload var). float32 h (payload var ! i) \<noteq> f \<longrightarrow>
                 cells g ! i = Valid (float32 h (payload var ! i)))))"
proof -
  from visualize_out[OF assms(1,2,3)] obtain g nd r0 e where
    n: "normalize h var = Inr (g, nd)" and a: "allocate h g = Inr r0"
    and run: "run [set_projection ds, set_geotransform ds var, write_band h g, set_nodata h nd,
                   compute_statistics h] r0 = (r, e)"
    by blast
  from normalize_grid[OF n] assms(4-6) have nd: "nd = f * s + off"
    and cells: "cells g = map (\<lambda>raw. if float32 h raw = f then Masked
                                   else Valid (float32 h raw * s + off)) (payload var)"
    by auto
  from allocate_extents[OF a] have r0: "band r0 = None" "nodata r0 = None" by auto
  from run_steps(2)[OF run] r0 have band: "band r = None \<or> band r = Some g" by simp
  from run_steps(3)[OF run] r0 nd
  have 1: "\<forall>v. nodata r = Some v \<longrightarrow> v = f * s + off" by auto
  have 2: "band r \<noteq> None \<and> nodata_ok h (f * s + off) \<longrightarrow> nodata r = Some (f * s + off)"
  proof (intro impI)
    assume h: "band r \<noteq> None \<and> nodata_ok h (f * s + off)"
    with band have "band r = Some g" by simp
    from run_steps(4)[OF run this r0] h nd show "nodata r = Some (f * s + off)" by simp
  qed
  have 3: "\<forall>g'. band r = Some g' \<longrightarrow> length (cells g') = length (payload var)
           \<and> (\<forall>i < length (payload var).
                 cells g' ! i = (if float32 h (payload var ! i) = f then Masked
                                else Valid (float32 h (payload var ! i) * s + off)))"
    using band cells by auto
  have 4: "s = 1 \<and> off = 0 \<longrightarrow>
          (\<forall>g'. band r = Some g' \<longrightarrow>
             (\<forall>i < length (payload var). float32 h (payload var ! i) \<noteq> f \<longrightarrow>
                 cells g' ! i = Valid (float32 h (payload var ! i))))"
    using band cells by auto
  show ?thesis
    apply (intro conjI)
       apply (rule 1)
      apply (rule 2)
     apply (rule 3)
    apply (rule 4)
    done
qed

theorem nodata_follows_scaling_witness:
  "(\<exists>r. out_ds (visualize demo_host packed_ds ''t'') = Some r \<and> nodata r = Some (- 1997))
   \<and> (\<exists>r g. out_ds (visualize demo_host bare_ds ''t'') = Some r \<and> band r = Some g
          \<and> cells g ! 0 = Valid 1 \<and> cells g ! 3 = Valid 4)"
proof -
  have n: "''t'' \<noteq> []" by simp
  obtain r where r: "out_ds (visualize demo_host packed_ds ''t'') = Some r"
    and rb: "band r \<noteq> None"
    by (simp add: visualize_packed)
  note a = nodata_follows_scaling[OF variables_packed n r packed_attributes]
  have ok: "nodata_ok demo_host (- 999 * 2 + 1)" by (rule demo_host_fields)
  from a rb ok have "nodata r = Some (- 999 * 2 + 1)" by blast
  then have 1: "nodata r = Some (- 1997)" by simp
  obtain q g where q: "out_ds (visualize demo_host bare_ds ''t'') = Some q"
    and g: "band q = Some g"
    by (simp add: visualize_bare)
  note b = nodata_follows_scaling[OF variables_bare n q plain_attributes]
  have len: "0 < length (payload plain_field)" "3 < length (payload plain_field)"
    by (simp_all add: plain_field_def field_def)
  have raw: "float32 demo_host (payload plain_field ! 0) = 1"
    "float32 demo_host (payload plain_field ! 3) = 4"
    by (simp_all add: demo_host_fields plain_field_def field_def)
  from b g have id: "\<forall>i < length (payload plain_field).
      float32 demo_host (payload plain_field ! i) \<noteq> - 9999 \<longrightarrow>
      cells g ! i = Valid (float32 demo_host (payload plain_field ! i))" by blast
  from id len(1) raw(1) have 2: "cells g ! 0 = Valid 1" by fastforce
  from id len(2) raw(2) have 3: "cells g ! 3 = Valid 4" by fastforce
  from r 1 q g 2 3 show ?thesis by blast
qed

text \<open>
  C9. When no coordinate pair is resolved, \<open>get_geotransform\<close> returns \<open>(None, None)\<close>
  and \<open>visualize\<close> goes on: provided the other statements succeed (the data is
  normalized, the driver creates the file, the classifier does not raise, the band is
  written with status 0, the statistics are computed), the raster is complete, with no
  geotransform set, and no exception is reported.
\<close>

theorem no_coordinates_still_written:
  assumes "variables ds name = Some var" "name \<noteq> []" "shape var = rows # cols # rest"
    and "get_geotransform ds var = None"
    and "normalize h var = Inr (g, nd)"
    and "gtiff_driver h" "create_ok h cols rows"
    and "get_projection_info ds = Inr info"
    and "band_ok h" "write_array h (shape var) = Inr 0" "statistics_ok h"
  shows "\<exists>r. visualize h ds name =
              \<lparr>temp_file = True, out_ds = Some r, layer_added = layer_valid h,
               messages = (if layer_valid h then [] else [LayerInvalid])\<rparr>
     \<and> geotransform r = None \<and> band r = Some g \<and> xsize r = cols \<and> ysize r = rows
     \<and> projection r = map_option fst info
     \<and> nodata r = (if nodata_ok h nd then Some nd else None) \<and> statistics r"
proof -
  from normalize_grid[OF assms(5)] have e: "extents g = shape var" by auto
  have v: "visualize h ds name = render h ds var (idle\<lparr>temp_file := True\<rparr>)"
    using assms(1-3) by (simp add: visualize_def)
  have a: "allocate h g =
             Inr \<lparr>xsize = cols, ysize = rows, projection = None, geotransform = None,
                  band = None, nodata = None, statistics = False\<rparr>"
    using assms(3,6,7) e by (simp add: allocate_def)
  show ?thesis
    unfolding v render_def
    by (cases info)
       (auto simp: assms(4,5,8,9,10,11) a e run_steps_eq finish_def idle_def Let_def
             simp del: run.simps)
qed

theorem no_coordinates_still_written_witness:
  "get_geotransform bare_ds plain_field = None
   \<and> (\<exists>r. visualize demo_host bare_ds ''t'' =
              \<lparr>temp_file = True, out_ds = Some r, layer_added = True, messages = []\<rparr>
        \<and> geotransform r = None
        \<and> band r = Some \<lparr>extents = [2, 2], cells = [Valid 1, Valid 2, Valid 3, Valid 4]\<rparr>
        \<and> xsize r = 2 \<and> ysize r = 2 \<and> nodata r = Some (- 9999) \<and> statistics r)"
proof -
  have n: "''t'' \<noteq> []" by simp
  have s: "shape plain_field = [2, 2]" by (simp add: plain_field_def field_def)
  have w: "write_array demo_host (shape plain_field) = Inr 0"
    by (simp add: demo_host_fields s)
  from no_coordinates_still_written[OF variables_bare n s get_geotransform_bare normalize_plain
      demo_host_fields(3) demo_host_fields(4) projection_bare demo_host_fields(5) w
      demo_host_fields(8)]
  obtain r where "visualize demo_host bare_ds ''t'' =
              \<lparr>temp_file = True, out_ds = Some r, layer_added = True, messages = []\<rparr>
        \<and> geotransform r = None
        \<and> band r = Some \<lparr>extents = [2, 2], cells = [Valid 1, Valid 2, Valid 3, Valid 4]\<rparr>
        \<and> xsize r = 2 \<and> ysize r = 2 \<and> nodata r = Some (- 9999) \<and> statistics r"
    by (auto simp: demo_host_fields)
  with get_geotransform_bare show ?thesis by blast
qed

text \<open>
  C10. \<open>get_geotransform\<close> is total at its interface: it returns \<open>(None, None)\<close>, or a
  transform of six elements with the names of the two coordinate variables, which are
  variables of the dataset; and every exception raised inside it is turned into
  \<open>(None, None)\<close>.
\<close>

theorem get_geotransform_total:
  "(get_geotransform ds var = None \<or>
    (\<exists>gt x_name y_name. get_geotransform ds var = Some (gt, x_name, y_name) \<and> length gt = 6
        \<and> variables ds x_name \<noteq> None \<and> variables ds y_name \<noteq> None))
   \<and> (\<forall>e. geotransform_body ds var = Inl e \<longrightarrow> get_geotransform ds var = None)"
proof -
  have "get_geotransform ds var = None \<or>
    (\<exists>gt x_name y_name. get_geotransform ds var = Some (gt, x_name, y_name) \<and> length gt = 6
        \<and> variables ds x_name \<noteq> None \<and> variables ds y_name \<noteq> None)"
  proof (cases "get_geotransform ds var")
    case None
    then show ?thesis by simp
  next
    case (Some r)
    obtain gt xn yn where r: "r = (gt, xn, yn)" by (cases r) auto
    from Some obtain acc where acc: "resolve ds var = Inr acc"
      by (auto simp: get_geotransform_def geotransform_body_def andthen_def split: sum.splits)
    with Some r obtain xv yv where sel: "acc = (Some (xv, xn), Some (yv, yn))"
      and b: "build_geotransform ds xv yv = Inr gt"
      by (auto simp: get_geotransform_def geotransform_body_def andthen_def
                split: sum.splits option.splits prod.splits)
    from resolve_ok[OF acc] sel have "variables ds xn = Some xv" "variables ds yn = Some yv"
      by (simp_all add: sel_ok_def)
    with build_geotransform_length[OF b] Some r show ?thesis by simp
  qed
  moreover have "\<forall>e. geotransform_body ds var = Inl e \<longrightarrow> get_geotransform ds var = None"
    by (simp add: get_geotransform_def)
  ultimately show ?thesis by blast
qed

theorem get_geotransform_total_witness:
  "geotransform_body empty_axis_ds plain_field = Inl IndexError
   \<and> get_geotransform empty_axis_ds plain_field = None"
  using get_geotransform_total[of empty_axis_ds plain_field] body_empty_axis by simp

end
